theory Spec2Isabelle
  imports Main "HOL-Library.Multiset"
begin

section \<open>The relational store\<close>

text \<open>
  The five tables of the migration (\<^verbatim>\<open>users\<close>, \<^verbatim>\<open>murmurs\<close>, \<^verbatim>\<open>likes\<close>,
  \<^verbatim>\<open>follows\<close>, \<^verbatim>\<open>notifications\<close>) are lists of rows in insertion order.
  Identifiers are the strings the code passes around; timestamps are milliseconds.
  Record fields are global names in HOL, so a column that occurs in several
  tables carries the table's initial (\<open>u_id\<close>, \<open>m_id\<close>, ...).
\<close>

record user =
  u_id :: string
  username :: string
  email :: string
  displayName :: string
  password :: string
  avatar :: "string option"
  bio :: "string option"
  followersCount :: int
  followingCount :: int
  murmursCount :: int
  isActive :: bool
  lastLogin :: "nat option"
  u_createdAt :: nat
  u_updatedAt :: nat

record murmur =
  m_id :: string
  content :: string
  m_userId :: string
  replyToId :: "string option"
  likesCount :: int
  repliesCount :: int
  retweetsCount :: int
  isDeleted :: bool
  m_createdAt :: nat
  m_updatedAt :: nat

record like =
  l_id :: string
  l_userId :: string
  l_murmurId :: string
  l_createdAt :: nat

record follow =
  f_id :: string
  followerId :: string
  followingId :: string
  f_createdAt :: nat

datatype ntype = NLike | NFollow | NReply

record notification =
  n_id :: string
  n_type :: ntype
  n_userId :: string
  n_actorId :: string
  n_murmurId :: "string option"
  isRead :: bool
  n_createdAt :: nat

record db =
  users :: "user list"
  murmurs :: "murmur list"
  likes :: "like list"
  follows :: "follow list"
  notifications :: "notification list"

text \<open>
  What a store call can throw: the client's errors for a violated unique index or
  primary key, a violated foreign key, a record that an \<^verbatim>\<open>update\<close> or
  \<^verbatim>\<open>delete\<close> did not find and a value wider than its column; and the
  \<^verbatim>\<open>Error('Users cannot follow themselves')\<close> of \<^verbatim>\<open>FollowService.create\<close>.
  An operation that writes answers its result together with the store after it;
  an operation that throws (\<open>Inl\<close>) has written nothing, and the store stays
  the one it was called on.
\<close>

datatype error =
  UniqueConstraintFailed
  | ForeignKeyConstraintFailed
  | RecordNotFound
  | ValueTooLong
  | SelfFollowError

definition userExists :: "db \<Rightarrow> string \<Rightarrow> bool" where
  "userExists d i = list_ex (\<lambda>u. u_id u = i) (users d)"

definition murmurExists :: "db \<Rightarrow> string \<Rightarrow> bool" where
  "murmurExists d i = list_ex (\<lambda>m. m_id m = i) (murmurs d)"

text \<open>
  JavaScript truthiness of an optional string: \<^verbatim>\<open>undefined\<close> and the empty
  string are falsy.
\<close>

definition truthy :: "string option \<Rightarrow> bool" where
  "truthy s = (case s of None \<Rightarrow> False | Some x \<Rightarrow> x \<noteq> [])"

text \<open>
  \<^verbatim>\<open>orderBy: { f: 'desc' }\<close> followed by \<^verbatim>\<open>skip\<close> and \<^verbatim>\<open>take\<close>. The query
  does not fix the order among rows of equal key; the model lists them in
  reverse insertion order, and no statement below depends on that order.
\<close>

definition orderByDesc :: "('a \<Rightarrow> 'k::linorder) \<Rightarrow> 'a list \<Rightarrow> 'a list" where
  "orderByDesc f xs = rev (sort_key f xs)"

definition page :: "nat \<Rightarrow> nat \<Rightarrow> 'a list \<Rightarrow> 'a list" where
  "page limit offset xs = take limit (drop offset xs)"

section \<open>Objects handed to callers\<close>

text \<open>
  A JavaScript object is a finite map from property names to values. The user
  object read from the store has one property per column.
\<close>

datatype jsval = JString string | JNumber int | JBool bool | JDate nat | JNull

type_synonym jsobj = "string \<rightharpoonup> jsval"

definition optString :: "string option \<Rightarrow> jsval" where
  "optString s = (case s of None \<Rightarrow> JNull | Some x \<Rightarrow> JString x)"

definition optDate :: "nat option \<Rightarrow> jsval" where
  "optDate s = (case s of None \<Rightarrow> JNull | Some x \<Rightarrow> JDate x)"

definition userObject :: "user \<Rightarrow> jsobj" where
  "userObject u =
     [''id'' \<mapsto> JString (u_id u),
      ''username'' \<mapsto> JString (username u),
      ''email'' \<mapsto> JString (email u),
      ''displayName'' \<mapsto> JString (displayName u),
      ''password'' \<mapsto> JString (password u),
      ''avatar'' \<mapsto> optString (avatar u),
      ''bio'' \<mapsto> optString (bio u),
      ''followersCount'' \<mapsto> JNumber (followersCount u),
      ''followingCount'' \<mapsto> JNumber (followingCount u),
      ''murmursCount'' \<mapsto> JNumber (murmursCount u),
      ''isActive'' \<mapsto> JBool (isActive u),
      ''lastLogin'' \<mapsto> optDate (lastLogin u),
      ''createdAt'' \<mapsto> JDate (u_createdAt u),
      ''updatedAt'' \<mapsto> JDate (u_updatedAt u)]"

text \<open>
  \<^verbatim>\<open>const { password, ...userWithoutPassword } = user\<close>: the rest pattern keeps
  every property but the one named.
\<close>

definition withoutPassword :: "jsobj \<Rightarrow> jsobj" where
  "withoutPassword obj = obj(''password'' := None)"

text \<open>A \<^verbatim>\<open>select\<close> clause keeps the listed columns only.\<close>

definition selectFields :: "string list \<Rightarrow> jsobj \<Rightarrow> jsobj" where
  "selectFields fs obj = (\<lambda>k. if k \<in> set fs then obj k else None)"

text \<open>Reading a numeric property, as in \<^verbatim>\<open>targetUser.followersCount\<close>.\<close>

definition numberOf :: "jsobj \<Rightarrow> string \<Rightarrow> int" where
  "numberOf obj k = (case obj k of Some (JNumber n) \<Rightarrow> n | _ \<Rightarrow> 0)"

section \<open>UserService\<close>

definition UserService_findById :: "db \<Rightarrow> string \<Rightarrow> jsobj option" where
  "UserService_findById d i =
     (case find (\<lambda>u. u_id u = i) (users d) of
        None \<Rightarrow> None
      | Some u \<Rightarrow> Some (withoutPassword (userObject u)))"

text \<open>
  \<^verbatim>\<open>updateCounts(id, counts)\<close> passes \<^verbatim>\<open>counts\<close> as the \<^verbatim>\<open>data\<close> of
  \<^verbatim>\<open>prisma.user.update\<close>. A plain number in \<^verbatim>\<open>data\<close> is the column's new
  value (an increment is written \<^verbatim>\<open>{ increment: 1 }\<close>, as
  \<^verbatim>\<open>MurmurService.incrementLikesCount\<close> does); an absent property leaves the
  column alone. The update throws when no row has the id. The columns are 32-bit
  integers; the model's \<open>int\<close> is unbounded, and the handlers write 1 and -1 only.
\<close>

record counts =
  c_followersCount :: "int option"
  c_followingCount :: "int option"
  c_murmursCount :: "int option"

definition noCounts :: counts where
  "noCounts = \<lparr>c_followersCount = None, c_followingCount = None, c_murmursCount = None\<rparr>"

definition applyCounts :: "nat \<Rightarrow> counts \<Rightarrow> user \<Rightarrow> user" where
  "applyCounts now c u =
     u\<lparr>followersCount := (case c_followersCount c of None \<Rightarrow> followersCount u | Some v \<Rightarrow> v),
       followingCount := (case c_followingCount c of None \<Rightarrow> followingCount u | Some v \<Rightarrow> v),
       murmursCount := (case c_murmursCount c of None \<Rightarrow> murmursCount u | Some v \<Rightarrow> v),
       u_updatedAt := now\<rparr>"

definition UserService_updateCounts :: "db \<Rightarrow> nat \<Rightarrow> string \<Rightarrow> counts \<Rightarrow> error + db" where
  "UserService_updateCounts d now i c =
     (if userExists d i
      then Inr (d\<lparr>users := map (\<lambda>u. if u_id u = i then applyCounts now c u else u) (users d)\<rparr>)
      else Inl RecordNotFound)"

text \<open>
  \<^verbatim>\<open>findByEmail\<close> and \<^verbatim>\<open>findByUsername\<close> read through the unique indexes on
  the two columns.
\<close>

definition UserService_findByEmail :: "db \<Rightarrow> string \<Rightarrow> jsobj option" where
  "UserService_findByEmail d e =
     (case find (\<lambda>u. email u = e) (users d) of
        None \<Rightarrow> None
      | Some u \<Rightarrow> Some (withoutPassword (userObject u)))"

definition UserService_findByUsername :: "db \<Rightarrow> string \<Rightarrow> jsobj option" where
  "UserService_findByUsername d n =
     (case find (\<lambda>u. username u = n) (users d) of
        None \<Rightarrow> None
      | Some u \<Rightarrow> Some (withoutPassword (userObject u)))"

text \<open>
  \<^verbatim>\<open>IUserCreate\<close> and \<^verbatim>\<open>IUserUpdate\<close>. \<^verbatim>\<open>prisma.user.create\<close> checks the
  primary key, the unique indexes on \<^verbatim>\<open>username\<close> and \<^verbatim>\<open>email\<close> and the
  column widths of the migration, and fills the defaults. \<^verbatim>\<open>bcrypt.hash\<close> is
  the parameter \<open>hash\<close>. A width is compared with the length of the value; the
  store's cutting of surplus trailing spaces is not modelled.
\<close>

record userCreate =
  uc_username :: string
  uc_email :: string
  uc_displayName :: string
  uc_password :: string
  uc_avatar :: "string option"
  uc_bio :: "string option"

record userUpdate =
  uu_username :: "string option"
  uu_email :: "string option"
  uu_displayName :: "string option"
  uu_avatar :: "string option"
  uu_bio :: "string option"

definition fitsOpt :: "nat \<Rightarrow> string option \<Rightarrow> bool" where
  "fitsOpt n s = (case s of None \<Rightarrow> True | Some x \<Rightarrow> length x \<le> n)"

definition prisma_user_create :: "db \<Rightarrow> string \<Rightarrow> nat \<Rightarrow> userCreate \<Rightarrow> error + (user \<times> db)" where
  "prisma_user_create d cuid now data =
     (if \<not> (length (uc_username data) \<le> 30 \<and> length (uc_email data) \<le> 255
              \<and> length (uc_displayName data) \<le> 50 \<and> length (uc_password data) \<le> 255
              \<and> fitsOpt 500 (uc_avatar data) \<and> fitsOpt 160 (uc_bio data))
        then Inl ValueTooLong
      else if list_ex (\<lambda>u. u_id u = cuid \<or> username u = uc_username data \<or> email u = uc_email data) (users d)
        then Inl UniqueConstraintFailed
      else (let row = \<lparr>u_id = cuid, username = uc_username data, email = uc_email data,
                        displayName = uc_displayName data, password = uc_password data,
                        avatar = uc_avatar data, bio = uc_bio data,
                        followersCount = 0, followingCount = 0, murmursCount = 0,
                        isActive = True, lastLogin = None, u_createdAt = now, u_updatedAt = now\<rparr>
            in Inr (row, d\<lparr>users := users d @ [row]\<rparr>)))"

definition UserService_create :: "(string \<Rightarrow> string) \<Rightarrow> db \<Rightarrow> string \<Rightarrow> nat \<Rightarrow> userCreate \<Rightarrow> error + (jsobj \<times> db)" where
  "UserService_create hash d cuid now userData =
     (let hashedPassword = hash (uc_password userData)
      in (case prisma_user_create d cuid now (userData\<lparr>uc_password := hashedPassword\<rparr>) of
            Inl e \<Rightarrow> Inl e
          | Inr (user, d') \<Rightarrow> Inr (withoutPassword (userObject user), d')))"

definition orElse :: "'a option \<Rightarrow> 'a \<Rightarrow> 'a" where
  "orElse x dflt = (case x of None \<Rightarrow> dflt | Some v \<Rightarrow> v)"

definition applyUpdate :: "nat \<Rightarrow> userUpdate \<Rightarrow> user \<Rightarrow> user" where
  "applyUpdate now data u =
     u\<lparr>username := orElse (uu_username data) (username u),
       email := orElse (uu_email data) (email u),
       displayName := orElse (uu_displayName data) (displayName u),
       avatar := (case uu_avatar data of None \<Rightarrow> avatar u | Some v \<Rightarrow> Some v),
       bio := (case uu_bio data of None \<Rightarrow> bio u | Some v \<Rightarrow> Some v),
       u_updatedAt := now\<rparr>"

definition prisma_user_update :: "db \<Rightarrow> nat \<Rightarrow> string \<Rightarrow> userUpdate \<Rightarrow> error + (user \<times> db)" where
  "prisma_user_update d now i data =
     (case find (\<lambda>u. u_id u = i) (users d) of
        None \<Rightarrow> Inl RecordNotFound
      | Some u \<Rightarrow>
         (if \<not> (fitsOpt 30 (uu_username data) \<and> fitsOpt 255 (uu_email data)
                  \<and> fitsOpt 50 (uu_displayName data) \<and> fitsOpt 500 (uu_avatar data)
                  \<and> fitsOpt 160 (uu_bio data))
            then Inl ValueTooLong
          else if list_ex (\<lambda>v. u_id v \<noteq> i
                     \<and> (uu_username data = Some (username v) \<or> uu_email data = Some (email v))) (users d)
            then Inl UniqueConstraintFailed
          else (let row = applyUpdate now data u
                in Inr (row, d\<lparr>users := map (\<lambda>v. if u_id v = i then row else v) (users d)\<rparr>))))"

text \<open>
  \<^verbatim>\<open>update\<close> answers the updated row without its password; the row that
  \<^verbatim>\<open>prisma.user.update\<close> returns is an object, so \<^verbatim>\<open>if (!user) return null\<close>
  is never taken.
\<close>

definition UserService_update :: "db \<Rightarrow> nat \<Rightarrow> string \<Rightarrow> userUpdate \<Rightarrow> error + (jsobj option \<times> db)" where
  "UserService_update d now i userData =
     (case prisma_user_update d now i userData of
        Inl e \<Rightarrow> Inl e
      | Inr (user, d') \<Rightarrow> Inr (Some (withoutPassword (userObject user)), d'))"

section \<open>FollowService\<close>

text \<open>
  \<^verbatim>\<open>prisma.follow.create\<close>: the generated identifier \<open>cuid\<close> is the primary key;
  the pair of follower and followee is unique; both are foreign keys into
  \<^verbatim>\<open>users\<close>.
\<close>

definition prisma_follow_create :: "db \<Rightarrow> string \<Rightarrow> nat \<Rightarrow> string \<Rightarrow> string \<Rightarrow> error + (follow \<times> db)" where
  "prisma_follow_create d cuid now fr fg =
     (if list_ex (\<lambda>r. f_id r = cuid) (follows d) then Inl UniqueConstraintFailed
      else if list_ex (\<lambda>r. followerId r = fr \<and> followingId r = fg) (follows d)
        then Inl UniqueConstraintFailed
      else if \<not> userExists d fr \<or> \<not> userExists d fg then Inl ForeignKeyConstraintFailed
      else (let row = \<lparr>f_id = cuid, followerId = fr, followingId = fg, f_createdAt = now\<rparr>
            in Inr (row, d\<lparr>follows := follows d @ [row]\<rparr>)))"

definition FollowService_create :: "db \<Rightarrow> string \<Rightarrow> nat \<Rightarrow> string \<Rightarrow> string \<Rightarrow> error + (follow \<times> db)" where
  "FollowService_create d cuid now fr fg =
     (if fr = fg then Inl SelfFollowError else prisma_follow_create d cuid now fr fg)"

definition FollowService_findByFollowerAndFollowing :: "db \<Rightarrow> string \<Rightarrow> string \<Rightarrow> follow option" where
  "FollowService_findByFollowerAndFollowing d fr fg =
     find (\<lambda>r. followerId r = fr \<and> followingId r = fg) (follows d)"

text \<open>
  \<^verbatim>\<open>FollowService.delete\<close> catches the error of a delete that finds no row and
  answers \<^verbatim>\<open>false\<close>.
\<close>

definition FollowService_delete :: "db \<Rightarrow> string \<Rightarrow> string \<Rightarrow> bool \<times> db" where
  "FollowService_delete d fr fg =
     (if list_ex (\<lambda>r. followerId r = fr \<and> followingId r = fg) (follows d)
      then (True, d\<lparr>follows := filter (\<lambda>r. \<not> (followerId r = fr \<and> followingId r = fg)) (follows d)\<rparr>)
      else (False, d))"

definition FollowService_isFollowing :: "db \<Rightarrow> string \<Rightarrow> string \<Rightarrow> bool" where
  "FollowService_isFollowing d fr fg =
     (FollowService_findByFollowerAndFollowing d fr fg \<noteq> None)"

section \<open>NotificationService\<close>

text \<open>
  The lookup and the insert both spread \<^verbatim>\<open>...(murmurId && { murmurId })\<close>: a
  falsy \<^verbatim>\<open>murmurId\<close> adds no condition to the lookup and no column to the new
  row. \<^verbatim>\<open>findFirst\<close> answers the first matching row. The \<^verbatim>\<open>include\<close> of the
  insert only joins the actor and the murmur into the returned object.
\<close>

definition notificationMatches :: "ntype \<Rightarrow> string \<Rightarrow> string \<Rightarrow> string option \<Rightarrow> notification \<Rightarrow> bool" where
  "notificationMatches ty userId actorId murmurId n =
     (n_type n = ty \<and> n_userId n = userId \<and> n_actorId n = actorId
      \<and> (if truthy murmurId then n_murmurId n = murmurId else True))"

definition prisma_notification_create ::
  "db \<Rightarrow> string \<Rightarrow> nat \<Rightarrow> ntype \<Rightarrow> string \<Rightarrow> string \<Rightarrow> string option \<Rightarrow> error + (notification \<times> db)" where
  "prisma_notification_create d cuid now ty userId actorId murmurId =
     (if list_ex (\<lambda>n. n_id n = cuid) (notifications d) then Inl UniqueConstraintFailed
      else if \<not> userExists d userId \<or> \<not> userExists d actorId then Inl ForeignKeyConstraintFailed
      else if (case murmurId of None \<Rightarrow> False | Some m \<Rightarrow> \<not> murmurExists d m)
        then Inl ForeignKeyConstraintFailed
      else (let row = \<lparr>n_id = cuid, n_type = ty, n_userId = userId, n_actorId = actorId,
                        n_murmurId = murmurId, isRead = False, n_createdAt = now\<rparr>
            in Inr (row, d\<lparr>notifications := notifications d @ [row]\<rparr>)))"

definition NotificationService_create ::
  "db \<Rightarrow> string \<Rightarrow> nat \<Rightarrow> ntype \<Rightarrow> string \<Rightarrow> string \<Rightarrow> string option
     \<Rightarrow> error + (notification option \<times> db)" where
  "NotificationService_create d cuid now ty userId actorId murmurId =
     (if userId = actorId then Inr (None, d)
      else (case find (notificationMatches ty userId actorId murmurId) (notifications d) of
              Some existing \<Rightarrow> Inr (Some existing, d)
            | None \<Rightarrow>
                (case prisma_notification_create d cuid now ty userId actorId
                        (if truthy murmurId then murmurId else None) of
                   Inl e \<Rightarrow> Inl e
                 | Inr (row, d') \<Rightarrow> Inr (Some row, d'))))"

section \<open>Routes of \<^verbatim>\<open>users.ts\<close>\<close>

text \<open>
  A handler answers with a status and a message, or with the data of its success
  response. Whatever a handler's \<^verbatim>\<open>try\<close> block throws is answered with status
  500; the writes made before the throw stay. The two \<^verbatim>\<open>updateCounts\<close> of a
  \<^verbatim>\<open>Promise.all\<close> both run, and the await throws when either failed. One
  request sees one clock reading \<open>now\<close>; \<open>fid\<close> and \<open>nid\<close> are the identifiers
  generated for the rows it inserts. Both routes run behind \<^verbatim>\<open>authenticate\<close>,
  which attaches the active user of the token: \<open>currentUserId\<close> is
  \<^verbatim>\<open>req.user.id\<close>.
\<close>

record pagination =
  p_page :: nat
  p_limit :: nat
  totalCount :: nat
  totalPages :: nat
  hasNextPage :: bool
  hasPreviousPage :: bool

datatype response =
  Failure nat string
  | FollowData bool int
  | MurmurList "(murmur \<times> bool) list" pagination

definition updateBothCounts :: "db \<Rightarrow> nat \<Rightarrow> string \<Rightarrow> counts \<Rightarrow> string \<Rightarrow> counts \<Rightarrow> error option \<times> db" where
  "updateBothCounts d now i1 c1 i2 c2 =
     (case UserService_updateCounts d now i1 c1 of
        Inl e1 \<Rightarrow>
          (case UserService_updateCounts d now i2 c2 of
             Inl e2 \<Rightarrow> (Some e1, d)
           | Inr d2 \<Rightarrow> (Some e1, d2))
      | Inr d1 \<Rightarrow>
          (case UserService_updateCounts d1 now i2 c2 of
             Inl e2 \<Rightarrow> (Some e2, d1)
           | Inr d2 \<Rightarrow> (None, d2)))"

definition followHandler :: "db \<Rightarrow> string \<Rightarrow> string \<Rightarrow> nat \<Rightarrow> string \<Rightarrow> string \<Rightarrow> response \<times> db" where
  "followHandler d fid nid now currentUserId targetUserId =
     (if targetUserId = [] then (Failure 400 ''User ID is required'', d)
      else (case UserService_findById d targetUserId of
        None \<Rightarrow> (Failure 404 ''User not found'', d)
      | Some targetUser \<Rightarrow>
         (case FollowService_findByFollowerAndFollowing d currentUserId targetUserId of
            Some existingFollow \<Rightarrow> (Failure 409 ''Already following this user'', d)
          | None \<Rightarrow>
             (case FollowService_create d fid now currentUserId targetUserId of
                Inl e \<Rightarrow> (Failure 500 ''Failed to follow user'', d)
              | Inr (row, d1) \<Rightarrow>
                 (case updateBothCounts d1 now
                         currentUserId (noCounts\<lparr>c_followingCount := Some 1\<rparr>)
                         targetUserId (noCounts\<lparr>c_followersCount := Some 1\<rparr>) of
                    (Some e, d2) \<Rightarrow> (Failure 500 ''Failed to follow user'', d2)
                  | (None, d2) \<Rightarrow>
                     (case NotificationService_create d2 nid now NFollow targetUserId currentUserId None of
                        Inl e \<Rightarrow> (Failure 500 ''Failed to follow user'', d2)
                      | Inr (n, d3) \<Rightarrow>
                          (FollowData True (numberOf targetUser ''followersCount'' + 1), d3)))))))"

definition unfollowHandler :: "db \<Rightarrow> nat \<Rightarrow> string \<Rightarrow> string \<Rightarrow> response \<times> db" where
  "unfollowHandler d now currentUserId targetUserId =
     (if targetUserId = [] then (Failure 400 ''User ID is required'', d)
      else (case UserService_findById d targetUserId of
        None \<Rightarrow> (Failure 404 ''User not found'', d)
      | Some targetUser \<Rightarrow>
         (case FollowService_findByFollowerAndFollowing d currentUserId targetUserId of
            None \<Rightarrow> (Failure 409 ''Not following this user'', d)
          | Some follow \<Rightarrow>
             (let d1 = snd (FollowService_delete d currentUserId targetUserId)
              in (case updateBothCounts d1 now
                         currentUserId (noCounts\<lparr>c_followingCount := Some (- 1)\<rparr>)
                         targetUserId (noCounts\<lparr>c_followersCount := Some (- 1)\<rparr>) of
                    (Some e, d2) \<Rightarrow> (Failure 500 ''Failed to unfollow user'', d2)
                  | (None, d2) \<Rightarrow>
                      (FollowData False (max 0 (numberOf targetUser ''followersCount'' - 1)), d2))))))"

section \<open>LikeService\<close>

text \<open>
  \<^verbatim>\<open>prisma.like.create\<close>: primary key, the unique index on the pair of user and
  murmur, and the two foreign keys. \<^verbatim>\<open>LikeService.like\<close> and
  \<^verbatim>\<open>LikeService.unlike\<close> are the wrappers around \<^verbatim>\<open>create\<close> and
  \<^verbatim>\<open>delete\<close>; \<^verbatim>\<open>delete\<close> catches the error of a delete that finds no row.
\<close>

definition prisma_like_create :: "db \<Rightarrow> string \<Rightarrow> nat \<Rightarrow> string \<Rightarrow> string \<Rightarrow> error + (like \<times> db)" where
  "prisma_like_create d cuid now userId murmurId =
     (if list_ex (\<lambda>r. l_id r = cuid) (likes d) then Inl UniqueConstraintFailed
      else if list_ex (\<lambda>r. l_userId r = userId \<and> l_murmurId r = murmurId) (likes d)
        then Inl UniqueConstraintFailed
      else if \<not> userExists d userId \<or> \<not> murmurExists d murmurId then Inl ForeignKeyConstraintFailed
      else (let row = \<lparr>l_id = cuid, l_userId = userId, l_murmurId = murmurId, l_createdAt = now\<rparr>
            in Inr (row, d\<lparr>likes := likes d @ [row]\<rparr>)))"

definition LikeService_create :: "db \<Rightarrow> string \<Rightarrow> nat \<Rightarrow> string \<Rightarrow> string \<Rightarrow> error + (like \<times> db)" where
  "LikeService_create d cuid now userId murmurId = prisma_like_create d cuid now userId murmurId"

definition LikeService_findByUserAndMurmur :: "db \<Rightarrow> string \<Rightarrow> string \<Rightarrow> like option" where
  "LikeService_findByUserAndMurmur d userId murmurId =
     find (\<lambda>r. l_userId r = userId \<and> l_murmurId r = murmurId) (likes d)"

definition LikeService_delete :: "db \<Rightarrow> string \<Rightarrow> string \<Rightarrow> bool \<times> db" where
  "LikeService_delete d userId murmurId =
     (if list_ex (\<lambda>r. l_userId r = userId \<and> l_murmurId r = murmurId) (likes d)
      then (True, d\<lparr>likes := filter (\<lambda>r. \<not> (l_userId r = userId \<and> l_murmurId r = murmurId)) (likes d)\<rparr>)
      else (False, d))"

definition LikeService_like :: "db \<Rightarrow> string \<Rightarrow> nat \<Rightarrow> string \<Rightarrow> string \<Rightarrow> error + (like \<times> db)" where
  "LikeService_like d cuid now userId murmurId = LikeService_create d cuid now userId murmurId"

definition LikeService_unlike :: "db \<Rightarrow> string \<Rightarrow> string \<Rightarrow> bool \<times> db" where
  "LikeService_unlike d userId murmurId = LikeService_delete d userId murmurId"

definition LikeService_isUserLiked :: "db \<Rightarrow> string \<Rightarrow> string \<Rightarrow> bool" where
  "LikeService_isUserLiked d userId murmurId =
     (LikeService_findByUserAndMurmur d userId murmurId \<noteq> None)"

definition LikeService_getLikeCount :: "db \<Rightarrow> string \<Rightarrow> nat" where
  "LikeService_getLikeCount d murmurId = length (filter (\<lambda>r. l_murmurId r = murmurId) (likes d))"

text \<open>The like edges of the store, as pairs of user and murmur.\<close>

definition likeEdges :: "db \<Rightarrow> (string \<times> string) list" where
  "likeEdges d = map (\<lambda>r. (l_userId r, l_murmurId r)) (likes d)"

section \<open>MurmurService\<close>

text \<open>
  Every listing runs \<^verbatim>\<open>findMany\<close> with a \<^verbatim>\<open>where\<close>, an \<^verbatim>\<open>orderBy\<close>,
  \<^verbatim>\<open>take\<close> and \<^verbatim>\<open>skip\<close>, and \<^verbatim>\<open>count\<close> with the same \<^verbatim>\<open>where\<close>. The
  \<^verbatim>\<open>include\<close> of the author's public columns joins them into each returned
  object and selects no rows; the model returns the rows.
\<close>

definition listing :: "(murmur \<Rightarrow> bool) \<Rightarrow> (murmur \<Rightarrow> 'k::linorder) \<Rightarrow> db \<Rightarrow> nat \<Rightarrow> nat \<Rightarrow> murmur list \<times> nat" where
  "listing wh key d limit offset =
     (page limit offset (orderByDesc key (filter wh (murmurs d))),
      length (filter wh (murmurs d)))"

definition MurmurService_findById :: "db \<Rightarrow> string \<Rightarrow> murmur option" where
  "MurmurService_findById d i = find (\<lambda>m. m_id m = i \<and> \<not> isDeleted m) (murmurs d)"

definition followingIdsOf :: "db \<Rightarrow> string \<Rightarrow> string list" where
  "followingIdsOf d userId = map followingId (filter (\<lambda>f. followerId f = userId) (follows d))"

text \<open>\<^verbatim>\<open>getTimeline\<close> of the TypeScript model.\<close>

definition MurmurService_getTimeline :: "db \<Rightarrow> string \<Rightarrow> nat \<Rightarrow> nat \<Rightarrow> murmur list \<times> nat" where
  "MurmurService_getTimeline d userId limit offset =
     (let followingIds = followingIdsOf d userId
      in listing (\<lambda>m. m_userId m \<in> set followingIds \<and> \<not> isDeleted m) m_createdAt d limit offset)"

text \<open>
  \<^verbatim>\<open>getTimeline\<close> of the compiled model, which has the line
  \<^verbatim>\<open>followingIds.push(userId)\<close>.
\<close>

definition MurmurService_getTimeline_compiled :: "db \<Rightarrow> string \<Rightarrow> nat \<Rightarrow> nat \<Rightarrow> murmur list \<times> nat" where
  "MurmurService_getTimeline_compiled d userId limit offset =
     (let followingIds = followingIdsOf d userId @ [userId]
      in listing (\<lambda>m. m_userId m \<in> set followingIds \<and> \<not> isDeleted m) m_createdAt d limit offset)"

definition MurmurService_getPublicMurmurs :: "db \<Rightarrow> nat \<Rightarrow> nat \<Rightarrow> murmur list \<times> nat" where
  "MurmurService_getPublicMurmurs d limit offset =
     listing (\<lambda>m. \<not> isDeleted m) m_createdAt d limit offset"

definition MurmurService_getUserMurmurs :: "db \<Rightarrow> string \<Rightarrow> nat \<Rightarrow> nat \<Rightarrow> murmur list \<times> nat" where
  "MurmurService_getUserMurmurs d userId limit offset =
     listing (\<lambda>m. m_userId m = userId \<and> \<not> isDeleted m) m_createdAt d limit offset"

text \<open>
  \<^verbatim>\<open>contains: query, mode: 'insensitive'\<close>: the query occurs in the content,
  letters compared without case (ASCII letters here). The characters \<^verbatim>\<open>%\<close> and
  \<^verbatim>\<open>_\<close> of a query, which the store's pattern match reads as wildcards, are
  compared literally here; the statements below hold for any match predicate.
\<close>

definition lowerChar :: "char \<Rightarrow> char" where
  "lowerChar c = (let n = (of_char c :: nat) in if 65 \<le> n \<and> n \<le> 90 then char_of (n + 32) else c)"

fun startsWith :: "'a list \<Rightarrow> 'a list \<Rightarrow> bool" where
  "startsWith s [] = True"
| "startsWith [] (q # qs) = False"
| "startsWith (c # cs) (q # qs) = (c = q \<and> startsWith cs qs)"

fun containsList :: "'a list \<Rightarrow> 'a list \<Rightarrow> bool" where
  "containsList [] q = (q = [])"
| "containsList (c # cs) q = (startsWith (c # cs) q \<or> containsList cs q)"

definition containsInsensitive :: "string \<Rightarrow> string \<Rightarrow> bool" where
  "containsInsensitive s query = containsList (map lowerChar s) (map lowerChar query)"

definition MurmurService_search :: "db \<Rightarrow> string \<Rightarrow> nat \<Rightarrow> nat \<Rightarrow> murmur list \<times> nat" where
  "MurmurService_search d query limit offset =
     listing (\<lambda>m. \<not> isDeleted m \<and> containsInsensitive (content m) query) m_createdAt d limit offset"

text \<open>
  \<^verbatim>\<open>getTrending\<close>: created at or after \<^verbatim>\<open>Date.now() - 24 * 60 * 60 * 1000\<close>,
  ordered by \<^verbatim>\<open>likesCount\<close>.
\<close>

definition MurmurService_getTrending :: "db \<Rightarrow> nat \<Rightarrow> nat \<Rightarrow> nat \<Rightarrow> murmur list \<times> nat" where
  "MurmurService_getTrending d now limit offset =
     listing (\<lambda>m. \<not> isDeleted m \<and> int now - 24 * 60 * 60 * 1000 \<le> int (m_createdAt m))
       likesCount d limit offset"

text \<open>\<^verbatim>\<open>UserService.search\<close>, with its \<^verbatim>\<open>select\<close> of thirteen columns.\<close>

definition searchSelect :: "string list" where
  "searchSelect =
     [''id'', ''username'', ''email'', ''displayName'', ''avatar'', ''bio'',
      ''followersCount'', ''followingCount'', ''murmursCount'', ''isActive'',
      ''lastLogin'', ''createdAt'', ''updatedAt'']"

definition UserService_search :: "db \<Rightarrow> string \<Rightarrow> nat \<Rightarrow> nat \<Rightarrow> jsobj list" where
  "UserService_search d query limit offset =
     map (\<lambda>u. selectFields searchSelect (userObject u))
       (page limit offset
          (orderByDesc followersCount
             (filter (\<lambda>u. (containsInsensitive (username u) query
                             \<or> containsInsensitive (displayName u) query) \<and> isActive u)
                (users d))))"

text \<open>
  Reading aids for the statements below: the store without its soft-deleted
  murmurs, the number of notification rows of one tuple, and the user row of
  one id.
\<close>

definition purgeDeleted :: "db \<Rightarrow> db" where
  "purgeDeleted d = d\<lparr>murmurs := filter (\<lambda>m. \<not> isDeleted m) (murmurs d)\<rparr>"

definition notificationCount :: "db \<Rightarrow> ntype \<Rightarrow> string \<Rightarrow> string \<Rightarrow> string option \<Rightarrow> nat" where
  "notificationCount d ty userId actorId murmurId =
     length (filter (\<lambda>n. n_type n = ty \<and> n_userId n = userId \<and> n_actorId n = actorId
                          \<and> n_murmurId n = murmurId) (notifications d))"

section \<open>Routes of \<^verbatim>\<open>murmurs.ts\<close>\<close>

text \<open>
  The query parameters \<^verbatim>\<open>page\<close> and \<^verbatim>\<open>limit\<close> are optional; the validators
  ask for an integer of at least 1, and at most 50 for the limit. Here a
  parameter is absent or a natural number. \<^verbatim>\<open>parseInt(...) || d\<close> is the
  default \<open>d\<close> for an absent parameter and for 0.
\<close>

definition validPaging :: "nat option \<Rightarrow> nat option \<Rightarrow> bool" where
  "validPaging p l =
     ((case p of None \<Rightarrow> True | Some n \<Rightarrow> 1 \<le> n)
      \<and> (case l of None \<Rightarrow> True | Some n \<Rightarrow> 1 \<le> n \<and> n \<le> 50))"

definition orDefault :: "nat option \<Rightarrow> nat \<Rightarrow> nat" where
  "orDefault p dflt = (case p of None \<Rightarrow> dflt | Some n \<Rightarrow> if n = 0 then dflt else n)"

definition mkPagination :: "nat \<Rightarrow> nat \<Rightarrow> nat \<Rightarrow> pagination" where
  "mkPagination pg limit cnt =
     \<lparr>p_page = pg, p_limit = limit, totalCount = cnt,
      totalPages = (cnt + limit - 1) div limit,
      hasNextPage = (pg * limit < cnt),
      hasPreviousPage = (1 < pg)\<rparr>"

text \<open>
  Each returned murmur is spread into a new object whose \<^verbatim>\<open>likesCount\<close> is the
  number of like rows and which carries \<^verbatim>\<open>isLikedByUser\<close>.
\<close>

definition formatMurmur :: "db \<Rightarrow> string option \<Rightarrow> murmur \<Rightarrow> murmur \<times> bool" where
  "formatMurmur d reqUser m =
     (m\<lparr>likesCount := int (LikeService_getLikeCount d (m_id m))\<rparr>,
      (case reqUser of None \<Rightarrow> False | Some u \<Rightarrow> LikeService_isUserLiked d u (m_id m)))"

text \<open>
  \<^verbatim>\<open>GET /timeline\<close>. The handler also reads the followed users into
  \<^verbatim>\<open>followingIds\<close>, which it does not use.
\<close>

definition timelineHandler :: "db \<Rightarrow> string \<Rightarrow> nat option \<Rightarrow> nat option \<Rightarrow> response" where
  "timelineHandler d userId p l =
     (if \<not> validPaging p l then Failure 400 ''Validation failed''
      else (let pg = orDefault p 1; limit = orDefault l 10; offset = (pg - 1) * limit;
                (ms, cnt) = MurmurService_getTimeline d userId limit offset
            in MurmurList (map (formatMurmur d (Some userId)) ms) (mkPagination pg limit cnt)))"


section \<open>Example store\<close>

definition exampleUser :: "string \<Rightarrow> int \<Rightarrow> int \<Rightarrow> user" where
  "exampleUser name nfollowers nfollowing =
     \<lparr>u_id = name, username = name, email = name @ ''@example.org'', displayName = name,
      password = ''$2a$12$hash'', avatar = None, bio = None,
      followersCount = nfollowers, followingCount = nfollowing, murmursCount = 0,
      isActive = True, lastLogin = None, u_createdAt = 0, u_updatedAt = 0\<rparr>"

definition exampleDb :: db where
  "exampleDb =
     \<lparr>users = [exampleUser ''alice'' 0 0, exampleUser ''bob'' 0 0, exampleUser ''carol'' 0 0],
      murmurs = [], likes = [], follows = [], notifications = []\<rparr>"

definition followingCountOf :: "db \<Rightarrow> string \<Rightarrow> int option" where
  "followingCountOf d i = map_option followingCount (find (\<lambda>u. u_id u = i) (users d))"

definition followersCountOf :: "db \<Rightarrow> string \<Rightarrow> int option" where
  "followersCountOf d i = map_option followersCount (find (\<lambda>u. u_id u = i) (users d))"

definition exampleFollowDb :: db where
  "exampleFollowDb =
     \<lparr>users = [exampleUser ''alice'' 0 1, exampleUser ''bob'' 1 0],
      murmurs = [], likes = [],
      follows = [\<lparr>f_id = ''f1'', followerId = ''alice'', followingId = ''bob'', f_createdAt = 1\<rparr>],
      notifications = []\<rparr>"

definition exampleMurmur :: "string \<Rightarrow> string \<Rightarrow> string option \<Rightarrow> bool \<Rightarrow> nat \<Rightarrow> murmur" where
  "exampleMurmur i author parent deleted created =
     \<lparr>m_id = i, content = ''hello world'', m_userId = author, replyToId = parent,
      likesCount = 0, repliesCount = 0, retweetsCount = 0, isDeleted = deleted,
      m_createdAt = created, m_updatedAt = created\<rparr>"

text \<open>
  alice follows bob. bob wrote the root post m1, the reply m2 to it and the
  deleted post m4; alice wrote m3 and likes m1.
\<close>

definition exampleFeedDb :: db where
  "exampleFeedDb =
     \<lparr>users = [exampleUser ''alice'' 0 1, exampleUser ''bob'' 1 0],
      murmurs = [exampleMurmur ''m1'' ''bob'' None False 10,
                 exampleMurmur ''m2'' ''bob'' (Some ''m1'') False 20,
                 exampleMurmur ''m3'' ''alice'' None False 30,
                 exampleMurmur ''m4'' ''bob'' None True 40],
      likes = [\<lparr>l_id = ''l1'', l_userId = ''alice'', l_murmurId = ''m1'', l_createdAt = 50\<rparr>],
      follows = [\<lparr>f_id = ''f1'', followerId = ''alice'', followingId = ''bob'', f_createdAt = 1\<rparr>],
      notifications = []\<rparr>"

definition exampleHash :: "string \<Rightarrow> string" where
  "exampleHash p = ''$2a$12$'' @ rev p"

definition exampleSignup :: userCreate where
  "exampleSignup =
     \<lparr>uc_username = ''dave'', uc_email = ''dave@example.org'', uc_displayName = ''Dave'',
      uc_password = ''secret'', uc_avatar = None, uc_bio = None\<rparr>"

definition exampleUpdate :: userUpdate where
  "exampleUpdate =
     \<lparr>uu_username = None, uu_email = None, uu_displayName = Some ''Alice'',
      uu_avatar = None, uu_bio = None\<rparr>"

section \<open>Following and unfollowing\<close>

lemma userExists_find: "userExists d i \<longleftrightarrow> find (\<lambda>u. u_id u = i) (users d) \<noteq> None"
  by (auto simp: userExists_def list_ex_iff find_None_iff)

lemma findById_None_iff: "UserService_findById d i = None \<longleftrightarrow> \<not> userExists d i"
  by (simp add: UserService_findById_def userExists_find split: option.splits)

lemma find_holds: "find P xs = Some x \<Longrightarrow> P x"
  by (induction xs) (auto split: if_splits)

lemma find_map_same_id:
  assumes "\<And>u. u_id (f u) = u_id u"
  shows "find (\<lambda>u. u_id u = i) (map f xs) = map_option f (find (\<lambda>u. u_id u = i) xs)"
  using assms by (induction xs) auto

lemma updateCounts_users:
  assumes "UserService_updateCounts d now i c = Inr d'"
  shows "users d' = map (\<lambda>u. if u_id u = i then applyCounts now c u else u) (users d)
     \<and> follows d' = follows d \<and> notifications d' = notifications d"
  using assms by (auto simp: UserService_updateCounts_def split: if_splits)

lemma applyCounts_id: "u_id (if u_id u = i then applyCounts now c u else u) = u_id u"
  by (simp add: applyCounts_def)

lemma updateCounts_find:
  assumes "UserService_updateCounts d now i c = Inr d'"
  shows "find (\<lambda>u. u_id u = j) (users d')
     = map_option (\<lambda>u. if u_id u = i then applyCounts now c u else u) (find (\<lambda>u. u_id u = j) (users d))"
  using updateCounts_users [OF assms] find_map_same_id [of "\<lambda>u. if u_id u = i then applyCounts now c u else u" j "users d"]
  by (simp add: applyCounts_id)

lemma updateCounts_exists:
  assumes "UserService_updateCounts d now i c = Inr d'"
  shows "userExists d i" and "userExists d' j = userExists d j"
  using assms updateCounts_find [OF assms, of j]
  by (auto simp: UserService_updateCounts_def userExists_find split: if_splits)

lemma updateBothCounts_result:
  assumes "updateBothCounts d now i1 c1 i2 c2 = (None, d')" and "i1 \<noteq> i2"
  shows "find (\<lambda>u. u_id u = i1) (users d') = map_option (applyCounts now c1) (find (\<lambda>u. u_id u = i1) (users d))"
    and "find (\<lambda>u. u_id u = i2) (users d') = map_option (applyCounts now c2) (find (\<lambda>u. u_id u = i2) (users d))"
    and "userExists d i1" and "userExists d i2"
proof -
  from assms(1) obtain d1 where 1: "UserService_updateCounts d now i1 c1 = Inr d1"
    and 2: "UserService_updateCounts d1 now i2 c2 = Inr d'"
    by (auto simp: updateBothCounts_def split: sum.splits)
  have f1: "find (\<lambda>u. u_id u = i1) (users d1) = map_option (applyCounts now c1) (find (\<lambda>u. u_id u = i1) (users d))"
    using updateCounts_find [OF 1, of i1]
    by (cases "find (\<lambda>u. u_id u = i1) (users d)") (auto dest: find_holds)
  have f2: "find (\<lambda>u. u_id u = i2) (users d1) = find (\<lambda>u. u_id u = i2) (users d)"
    using updateCounts_find [OF 1, of i2] assms(2)
    by (cases "find (\<lambda>u. u_id u = i2) (users d)") (auto dest: find_holds)
  show "find (\<lambda>u. u_id u = i1) (users d') = map_option (applyCounts now c1) (find (\<lambda>u. u_id u = i1) (users d))"
    using updateCounts_find [OF 2, of i1] f1 assms(2)
    by (cases "find (\<lambda>u. u_id u = i1) (users d)") (auto dest: find_holds simp: applyCounts_def)
  show "find (\<lambda>u. u_id u = i2) (users d') = map_option (applyCounts now c2) (find (\<lambda>u. u_id u = i2) (users d))"
    using updateCounts_find [OF 2, of i2] f2
    by (cases "find (\<lambda>u. u_id u = i2) (users d)") (auto dest: find_holds)
  show "userExists d i1"
    using updateCounts_exists(1) [OF 1] .
  show "userExists d i2"
    using updateCounts_exists(1) [OF 2] updateCounts_exists(2) [OF 1, of i2] by simp
qed

lemma notification_create_users:
  assumes "NotificationService_create d cuid now ty r a m = Inr (n, d')"
  shows "users d' = users d \<and> follows d' = follows d"
  using assms
  by (auto simp: NotificationService_create_def prisma_notification_create_def Let_def
      split: if_splits option.splits sum.splits)

lemma follow_create_users:
  assumes "FollowService_create d cuid now fr fg = Inr (row, d')"
  shows "users d' = users d \<and> fr \<noteq> fg
     \<and> follows d' = follows d @ [\<lparr>f_id = cuid, followerId = fr, followingId = fg, f_createdAt = now\<rparr>]"
  using assms
  by (auto simp: FollowService_create_def prisma_follow_create_def Let_def split: if_splits)

text \<open>
  Whatever the store, a follow that succeeds leaves the follower's
  \<^verbatim>\<open>followingCount\<close> and the followee's \<^verbatim>\<open>followersCount\<close> at 1, and an
  unfollow that succeeds leaves them at -1.
\<close>

lemma follow_success_counts:
  assumes "followHandler d fid nid now cur tgt = (FollowData b n, d')"
  shows "followingCountOf d' cur = Some 1 \<and> followersCountOf d' tgt = Some 1"
proof -
  from assms obtain row d1 d2 nt where
    c: "FollowService_create d fid now cur tgt = Inr (row, d1)" and
    u: "updateBothCounts d1 now cur (noCounts\<lparr>c_followingCount := Some 1\<rparr>)
          tgt (noCounts\<lparr>c_followersCount := Some 1\<rparr>) = (None, d2)" and
    nf: "NotificationService_create d2 nid now NFollow tgt cur None = Inr (nt, d')"
    by (auto simp: followHandler_def split: if_splits option.splits sum.splits prod.splits)
  from follow_create_users [OF c] have ne: "cur \<noteq> tgt" by simp
  note r = updateBothCounts_result [OF u ne]
  from r(3) obtain uc where uc: "find (\<lambda>u. u_id u = cur) (users d1) = Some uc"
    by (auto simp: userExists_find)
  from r(4) obtain ut where ut: "find (\<lambda>u. u_id u = tgt) (users d1) = Some ut"
    by (auto simp: userExists_find)
  have us: "users d' = users d2"
    using notification_create_users [OF nf] by simp
  show ?thesis
    using r(1) r(2) uc ut
    by (simp add: followingCountOf_def followersCountOf_def us applyCounts_def noCounts_def)
qed

lemma unfollow_success_counts:
  assumes "unfollowHandler d now cur tgt = (FollowData b n, d')" and "cur \<noteq> tgt"
  shows "followingCountOf d' cur = Some (- 1) \<and> followersCountOf d' tgt = Some (- 1)"
proof -
  define d1 where "d1 = snd (FollowService_delete d cur tgt)"
  from assms(1) have
    u: "updateBothCounts d1 now cur (noCounts\<lparr>c_followingCount := Some (- 1)\<rparr>)
          tgt (noCounts\<lparr>c_followersCount := Some (- 1)\<rparr>) = (None, d')"
    by (auto simp: unfollowHandler_def d1_def Let_def split: if_splits option.splits sum.splits prod.splits)
  note r = updateBothCounts_result [OF u assms(2)]
  from r(3) obtain uc where uc: "find (\<lambda>u. u_id u = cur) (users d1) = Some uc"
    by (auto simp: userExists_find)
  from r(4) obtain ut where ut: "find (\<lambda>u. u_id u = tgt) (users d1) = Some ut"
    by (auto simp: userExists_find)
  show ?thesis
    using r(1) r(2) uc ut
    by (simp add: followingCountOf_def followersCountOf_def applyCounts_def noCounts_def)
qed

text \<open>
  Claim C1. After N successful follows of pairwise distinct users, starting with
  nobody followed and a \<^verbatim>\<open>followingCount\<close> of 0, the follower's
  \<^verbatim>\<open>followingCount\<close> is N. The handler writes the number 1 into the column at
  every follow instead of adding 1: alice follows bob and then carol, both
  requests succeed, two edges are stored, and her \<^verbatim>\<open>followingCount\<close> is 1.
\<close>

theorem follow_twice_followingCount_is_one:
  "(let (r1, d1) = followHandler exampleDb ''f1'' ''n1'' 1 ''alice'' ''bob'';
        (r2, d2) = followHandler d1 ''f2'' ''n2'' 2 ''alice'' ''carol''
    in r1 = FollowData True 1 \<and> r2 = FollowData True 1
       \<and> map followingId (follows d2) = [''bob'', ''carol'']
       \<and> followingCountOf exampleDb ''alice'' = Some 0
       \<and> followingCountOf d2 ''alice'' = Some 1)"
  by code_simp

text \<open>
  Claim C2. Following oneself fails with the self-follow error whatever the store
  holds: \<^verbatim>\<open>FollowService.create\<close> throws it before touching the store, and the
  follow handler called with the caller as target never answers success and
  leaves the store as it was (no edge, no counter write). Where the user exists
  and no edge from the user to itself is stored, the handler reaches
  \<^verbatim>\<open>FollowService.create\<close> and answers the caught error with status 500.
\<close>

theorem self_follow_fails:
  "FollowService_create d cuid now a a = Inl SelfFollowError
   \<and> snd (followHandler d fid nid now a a) = d
   \<and> (\<forall>b n. fst (followHandler d fid nid now a a) \<noteq> FollowData b n)
   \<and> (a \<noteq> [] \<and> userExists d a \<and> FollowService_findByFollowerAndFollowing d a a = None
        \<longrightarrow> fst (followHandler d fid nid now a a) = Failure 500 ''Failed to follow user'')"
proof -
  have create: "FollowService_create d cuid' now' a a = Inl SelfFollowError" for cuid' now'
    by (simp add: FollowService_create_def)
  have handler: "followHandler d fid nid now a a =
      (if a = [] then (Failure 400 ''User ID is required'', d)
       else if \<not> userExists d a then (Failure 404 ''User not found'', d)
       else if FollowService_findByFollowerAndFollowing d a a \<noteq> None
         then (Failure 409 ''Already following this user'', d)
       else (Failure 500 ''Failed to follow user'', d))"
    using findById_None_iff [of d a]
    by (auto simp: followHandler_def create split: option.splits)
  show ?thesis
    by (simp add: create handler)
qed

text \<open>The theorem at alice in the example store.\<close>

theorem self_follow_fails_witness:
  "FollowService_create exampleDb ''f1'' 1 ''alice'' ''alice'' = Inl SelfFollowError
   \<and> followHandler exampleDb ''f1'' ''n1'' 1 ''alice'' ''alice''
       = (Failure 500 ''Failed to follow user'', exampleDb)"
proof -
  have pre: "''alice'' \<noteq> [] \<and> userExists exampleDb ''alice''
      \<and> FollowService_findByFollowerAndFollowing exampleDb ''alice'' ''alice'' = None"
    by code_simp
  show ?thesis
    using pre self_follow_fails [of exampleDb "''f1''" 1 "''alice''" "''f1''" "''n1''"]
    by (simp add: prod_eq_iff)
qed

text \<open>
  Claim C4. Unfollowing an existing edge deletes it and decrements the follower's
  \<^verbatim>\<open>followingCount\<close> and the followee's \<^verbatim>\<open>followersCount\<close>, never below
  zero. The handler writes the number -1 into both columns: alice unfollows bob,
  the edge is gone, the response reports 0 followers, and both stored counters,
  1 before, are -1.
\<close>

theorem unfollow_counts_negative:
  "(let (r, d') = unfollowHandler exampleFollowDb 2 ''alice'' ''bob''
    in r = FollowData False 0 \<and> follows d' = []
       \<and> followingCountOf exampleFollowDb ''alice'' = Some 1
       \<and> followersCountOf exampleFollowDb ''bob'' = Some 1
       \<and> followingCountOf d' ''alice'' = Some (- 1)
       \<and> followersCountOf d' ''bob'' = Some (- 1))"
  by code_simp

section \<open>Liking and unliking\<close>

text \<open>
  Claim C3, as the code has it. When the like edge of user U and murmur M is
  already stored, \<^verbatim>\<open>LikeService.like(U, M)\<close> does not answer the stored edge:
  the insert violates the unique index and the call throws. Nothing is written,
  so the set of like edges is unchanged.
\<close>

theorem like_existing_edge_fails:
  "LikeService_isUserLiked d u m \<Longrightarrow> LikeService_like d cuid now u m = Inl UniqueConstraintFailed"
  by (auto simp: LikeService_isUserLiked_def LikeService_findByUserAndMurmur_def
      LikeService_like_def LikeService_create_def prisma_like_create_def list_ex_iff find_None_iff)

text \<open>The theorem at alice, who likes m1 in the example store.\<close>

theorem like_existing_edge_fails_witness:
  "LikeService_isUserLiked exampleFeedDb ''alice'' ''m1''
   \<and> LikeService_like exampleFeedDb ''l2'' 60 ''alice'' ''m1'' = Inl UniqueConstraintFailed"
proof -
  have pre: "LikeService_isUserLiked exampleFeedDb ''alice'' ''m1''"
    by code_simp
  show ?thesis
    using pre like_existing_edge_fails [OF pre, of "''l2''" 60] by simp
qed

text \<open>
  The claim as stated, that the call raises no error, fails in the example
  store, whose only like edge is the one of alice and m1.
\<close>

theorem like_existing_edge_counterexample:
  "likeEdges exampleFeedDb = [(''alice'', ''m1'')]
   \<and> LikeService_like exampleFeedDb ''l2'' 60 ''alice'' ''m1'' = Inl UniqueConstraintFailed"
  by code_simp

lemma unlike_absent:
  "\<not> LikeService_isUserLiked d u m \<Longrightarrow> LikeService_unlike d u m = (False, d)"
  by (auto simp: LikeService_isUserLiked_def LikeService_findByUserAndMurmur_def
      LikeService_unlike_def LikeService_delete_def list_ex_iff find_None_iff)

lemma unlike_present:
  "LikeService_isUserLiked d u m \<Longrightarrow>
   LikeService_unlike d u m =
     (True, d\<lparr>likes := filter (\<lambda>r. \<not> (l_userId r = u \<and> l_murmurId r = m)) (likes d)\<rparr>)"
  by (auto simp: LikeService_isUserLiked_def LikeService_findByUserAndMurmur_def
      LikeService_unlike_def LikeService_delete_def list_ex_iff find_None_iff)

lemma count_after_removal:
  "distinct (map (\<lambda>r. (l_userId r, l_murmurId r)) ls) \<Longrightarrow>
   list_ex (\<lambda>r. l_userId r = u \<and> l_murmurId r = m) ls \<Longrightarrow>
   length (filter (\<lambda>r. l_murmurId r = m) (filter (\<lambda>r. \<not> (l_userId r = u \<and> l_murmurId r = m)) ls)) + 1
     = length (filter (\<lambda>r. l_murmurId r = m) ls)"
proof (induction ls)
  case Nil
  then show ?case by simp
next
  case (Cons r rs)
  show ?case
  proof (cases "l_userId r = u \<and> l_murmurId r = m")
    case True
    with Cons.prems have "\<forall>x\<in>set rs. \<not> (l_userId x = u \<and> l_murmurId x = m)"
      by (auto simp: image_iff)
    then have "filter (\<lambda>r. \<not> (l_userId r = u \<and> l_murmurId r = m)) rs = rs"
      by (simp add: filter_id_conv)
    with True show ?thesis by simp
  next
    case False
    with Cons show ?thesis by auto
  qed
qed

text \<open>
  Claim C9. Without a like edge of U and M, \<^verbatim>\<open>unlike(U, M)\<close> answers
  \<^verbatim>\<open>false\<close> and the store, hence the set of like edges and the like count of
  M, is as before. With an edge it answers \<^verbatim>\<open>true\<close> and the edge is gone; as
  the unique index allows one row per pair, the like count of M drops by one.
\<close>

theorem unlike_result:
  "(\<not> LikeService_isUserLiked d u m \<longrightarrow> LikeService_unlike d u m = (False, d))
   \<and> (LikeService_isUserLiked d u m \<longrightarrow>
        fst (LikeService_unlike d u m) = True
        \<and> \<not> LikeService_isUserLiked (snd (LikeService_unlike d u m)) u m
        \<and> set (likeEdges (snd (LikeService_unlike d u m))) = set (likeEdges d) - {(u, m)}
        \<and> (distinct (likeEdges d) \<longrightarrow>
             LikeService_getLikeCount (snd (LikeService_unlike d u m)) m + 1
               = LikeService_getLikeCount d m))"
proof (cases "LikeService_isUserLiked d u m")
  case False
  then show ?thesis by (simp add: unlike_absent)
next
  case True
  have ex: "list_ex (\<lambda>r. l_userId r = u \<and> l_murmurId r = m) (likes d)"
    using True
    by (auto simp: LikeService_isUserLiked_def LikeService_findByUserAndMurmur_def
        list_ex_iff find_None_iff)
  have gone: "\<not> LikeService_isUserLiked (snd (LikeService_unlike d u m)) u m"
    by (auto simp: unlike_present [OF True] LikeService_isUserLiked_def
        LikeService_findByUserAndMurmur_def find_None_iff)
  have edges: "set (likeEdges (snd (LikeService_unlike d u m))) = set (likeEdges d) - {(u, m)}"
    by (auto simp: unlike_present [OF True] likeEdges_def)
  have cnt: "LikeService_getLikeCount (snd (LikeService_unlike d u m)) m + 1
      = LikeService_getLikeCount d m" if "distinct (likeEdges d)"
    using count_after_removal [of "likes d" u m] that ex
    by (simp add: unlike_present [OF True] LikeService_getLikeCount_def likeEdges_def)
  show ?thesis
    using True gone edges cnt by (simp add: unlike_present [OF True])
qed

text \<open>
  The theorem in the example store: bob does not like m1, alice does.
\<close>

theorem unlike_result_witness:
  "\<not> LikeService_isUserLiked exampleFeedDb ''bob'' ''m1''
   \<and> LikeService_unlike exampleFeedDb ''bob'' ''m1'' = (False, exampleFeedDb)
   \<and> LikeService_isUserLiked exampleFeedDb ''alice'' ''m1''
   \<and> distinct (likeEdges exampleFeedDb)
   \<and> fst (LikeService_unlike exampleFeedDb ''alice'' ''m1'') = True
   \<and> LikeService_getLikeCount (snd (LikeService_unlike exampleFeedDb ''alice'' ''m1'')) ''m1'' + 1
       = LikeService_getLikeCount exampleFeedDb ''m1''"
proof -
  have a: "\<not> LikeService_isUserLiked exampleFeedDb ''bob'' ''m1''"
    by code_simp
  have b: "LikeService_isUserLiked exampleFeedDb ''alice'' ''m1''"
    by code_simp
  have c: "distinct (likeEdges exampleFeedDb)"
    by code_simp
  show ?thesis
    using a b c unlike_result [of exampleFeedDb "''bob''" "''m1''"]
      unlike_result [of exampleFeedDb "''alice''" "''m1''"]
    by simp
qed

section \<open>Listings\<close>

lemma listing_spec:
  "\<exists>all. mset all = mset (filter wh (murmurs d))
       \<and> sorted_wrt (\<lambda>a b. key b \<le> key a) all
       \<and> listing wh key d limit offset = (take limit (drop offset all), length all)"
proof -
  let ?all = "orderByDesc key (filter wh (murmurs d))"
  have "mset ?all = mset (filter wh (murmurs d))"
    by (simp add: orderByDesc_def)
  moreover have "sorted_wrt (\<lambda>a b. key b \<le> key a) ?all"
    using sorted_sort_key [of key "filter wh (murmurs d)"]
    by (simp add: orderByDesc_def sorted_wrt_rev sorted_map)
  moreover have "length ?all = length (filter wh (murmurs d))"
    by (simp add: orderByDesc_def)
  ultimately show ?thesis
    unfolding listing_def page_def by (intro exI [of _ ?all]) simp
qed

lemma listing_subset:
  "set (fst (listing wh key d limit offset)) \<subseteq> {m \<in> set (murmurs d). wh m}"
proof -
  have "set (fst (listing wh key d limit offset)) \<subseteq> set (orderByDesc key (filter wh (murmurs d)))"
    unfolding listing_def page_def fst_conv
    by (meson set_take_subset set_drop_subset subset_trans)
  then show ?thesis by (auto simp: orderByDesc_def)
qed

lemma listing_purge:
  assumes "\<And>m. wh m \<Longrightarrow> \<not> isDeleted m"
  shows "listing wh key (purgeDeleted d) limit offset = listing wh key d limit offset"
proof -
  have "filter wh (filter (\<lambda>m. \<not> isDeleted m) (murmurs d)) = filter wh (murmurs d)"
    using assms by (auto intro: filter_cong)
  then show ?thesis by (simp add: listing_def purgeDeleted_def)
qed

lemma following_member:
  "x \<in> set (followingIdsOf d u) \<longleftrightarrow> FollowService_isFollowing d u x"
  by (auto simp: followingIdsOf_def FollowService_isFollowing_def
      FollowService_findByFollowerAndFollowing_def find_None_iff)

text \<open>
  Claim C5, as the code has it. \<^verbatim>\<open>getTimeline\<close> answers the requested page of
  the murmurs that are not deleted and whose author the user follows, newest
  first, together with their number; the compiled model adds the user's own
  murmurs. Replies are not filtered out: the \<^verbatim>\<open>where\<close> clause does not read
  \<^verbatim>\<open>replyToId\<close>.
\<close>

theorem timeline_contents:
  "(\<exists>all. mset all = mset (filter (\<lambda>m. FollowService_isFollowing d u (m_userId m) \<and> \<not> isDeleted m) (murmurs d))
       \<and> sorted_wrt (\<lambda>a b. m_createdAt b \<le> m_createdAt a) all
       \<and> MurmurService_getTimeline d u limit offset = (take limit (drop offset all), length all))
   \<and> (\<exists>all. mset all = mset (filter (\<lambda>m. (FollowService_isFollowing d u (m_userId m) \<or> m_userId m = u)
                                            \<and> \<not> isDeleted m) (murmurs d))
       \<and> sorted_wrt (\<lambda>a b. m_createdAt b \<le> m_createdAt a) all
       \<and> MurmurService_getTimeline_compiled d u limit offset = (take limit (drop offset all), length all))"
proof
  show "\<exists>all. mset all = mset (filter (\<lambda>m. FollowService_isFollowing d u (m_userId m) \<and> \<not> isDeleted m) (murmurs d))
       \<and> sorted_wrt (\<lambda>a b. m_createdAt b \<le> m_createdAt a) all
       \<and> MurmurService_getTimeline d u limit offset = (take limit (drop offset all), length all)"
    using listing_spec [of "\<lambda>m. FollowService_isFollowing d u (m_userId m) \<and> \<not> isDeleted m" d m_createdAt limit offset]
    by (simp add: MurmurService_getTimeline_def following_member)
  show "\<exists>all. mset all = mset (filter (\<lambda>m. (FollowService_isFollowing d u (m_userId m) \<or> m_userId m = u)
                                            \<and> \<not> isDeleted m) (murmurs d))
       \<and> sorted_wrt (\<lambda>a b. m_createdAt b \<le> m_createdAt a) all
       \<and> MurmurService_getTimeline_compiled d u limit offset = (take limit (drop offset all), length all)"
    using listing_spec [of "\<lambda>m. (FollowService_isFollowing d u (m_userId m) \<or> m_userId m = u) \<and> \<not> isDeleted m" d m_createdAt limit offset]
    by (simp add: MurmurService_getTimeline_compiled_def following_member disj_commute)
qed

text \<open>The theorem on the second page, of one item, of alice's timeline.\<close>

theorem timeline_contents_witness:
  "(\<exists>all. mset all = mset [exampleMurmur ''m1'' ''bob'' None False 10,
                            exampleMurmur ''m2'' ''bob'' (Some ''m1'') False 20]
       \<and> sorted_wrt (\<lambda>a b. m_createdAt b \<le> m_createdAt a) all
       \<and> MurmurService_getTimeline exampleFeedDb ''alice'' 1 1 = (take 1 (drop 1 all), length all))
   \<and> MurmurService_getTimeline exampleFeedDb ''alice'' 1 1 = ([exampleMurmur ''m1'' ''bob'' None False 10], 2)"
proof -
  have f: "filter (\<lambda>m. FollowService_isFollowing exampleFeedDb ''alice'' (m_userId m) \<and> \<not> isDeleted m)
             (murmurs exampleFeedDb)
           = [exampleMurmur ''m1'' ''bob'' None False 10, exampleMurmur ''m2'' ''bob'' (Some ''m1'') False 20]"
    by code_simp
  have v: "MurmurService_getTimeline exampleFeedDb ''alice'' 1 1 = ([exampleMurmur ''m1'' ''bob'' None False 10], 2)"
    by code_simp
  from timeline_contents [of exampleFeedDb "''alice''" 1 1]
  have "\<exists>all. mset all = mset (filter (\<lambda>m. FollowService_isFollowing exampleFeedDb ''alice'' (m_userId m) \<and> \<not> isDeleted m)
             (murmurs exampleFeedDb))
       \<and> sorted_wrt (\<lambda>a b. m_createdAt b \<le> m_createdAt a) all
       \<and> MurmurService_getTimeline exampleFeedDb ''alice'' 1 1 = (take 1 (drop 1 all), length all)"
    by (rule conjunct1)
  then show ?thesis
    unfolding f using v by simp
qed

text \<open>
  The claim as stated, that only root posts are returned, fails in the example
  store: alice's timeline holds bob's reply m2.
\<close>

theorem timeline_reply_counterexample:
  "MurmurService_getTimeline exampleFeedDb ''alice'' 10 0 =
     ([exampleMurmur ''m2'' ''bob'' (Some ''m1'') False 20,
       exampleMurmur ''m1'' ''bob'' None False 10], 2)
   \<and> replyToId (exampleMurmur ''m2'' ''bob'' (Some ''m1'') False 20) = Some ''m1''"
  by code_simp









lemma findById_deleted:
  assumes "m \<in> set (murmurs d)" "isDeleted m" "distinct (map m_id (murmurs d))"
  shows "MurmurService_findById d (m_id m) = None"
proof -
  have "x = m" if "x \<in> set (murmurs d)" "m_id x = m_id m" for x
    using that assms(1,3) by (meson distinct_map inj_onD)
  with assms(2) show ?thesis
    by (auto simp: MurmurService_findById_def find_None_iff)
qed

lemma listing_excludes:
  assumes "\<And>x. wh x \<Longrightarrow> \<not> isDeleted x" and "isDeleted m"
  shows "m \<notin> set (fst (listing wh key d limit offset))"
  using listing_subset [of wh key d limit offset] assms by auto

text \<open>
  Claim C8. A murmur whose \<^verbatim>\<open>isDeleted\<close> flag is set is in the items of no
  listing (timeline of either build, public feed, user murmurs, search,
  trending), and every listing answers what it answers on the store without
  the deleted rows, so the total count does not count it either.
  \<^verbatim>\<open>findById\<close> never answers it, and answers null for its id (ids being the
  primary key).
\<close>

theorem deleted_excluded:
  assumes "m \<in> set (murmurs d)" and "isDeleted m"
  shows "m \<notin> set (fst (MurmurService_getTimeline d u limit offset))
    \<and> m \<notin> set (fst (MurmurService_getTimeline_compiled d u limit offset))
    \<and> m \<notin> set (fst (MurmurService_getPublicMurmurs d limit offset))
    \<and> m \<notin> set (fst (MurmurService_getUserMurmurs d u limit offset))
    \<and> m \<notin> set (fst (MurmurService_search d q limit offset))
    \<and> m \<notin> set (fst (MurmurService_getTrending d now limit offset))
    \<and> MurmurService_getTimeline d u limit offset = MurmurService_getTimeline (purgeDeleted d) u limit offset
    \<and> MurmurService_getTimeline_compiled d u limit offset
         = MurmurService_getTimeline_compiled (purgeDeleted d) u limit offset
    \<and> MurmurService_getPublicMurmurs d limit offset = MurmurService_getPublicMurmurs (purgeDeleted d) limit offset
    \<and> MurmurService_getUserMurmurs d u limit offset = MurmurService_getUserMurmurs (purgeDeleted d) u limit offset
    \<and> MurmurService_search d q limit offset = MurmurService_search (purgeDeleted d) q limit offset
    \<and> MurmurService_getTrending d now limit offset = MurmurService_getTrending (purgeDeleted d) now limit offset
    \<and> (distinct (map m_id (murmurs d)) \<longrightarrow> MurmurService_findById d (m_id m) = None)
    \<and> MurmurService_findById d i \<noteq> Some m"
proof -
  note excl = listing_excludes [OF _ assms(2)]
  have fol: "followingIdsOf (purgeDeleted d) u = followingIdsOf d u"
    by (simp add: followingIdsOf_def purgeDeleted_def)
  have 1: "m \<notin> set (fst (MurmurService_getTimeline d u limit offset))"
    unfolding MurmurService_getTimeline_def Let_def by (rule excl) simp
  have 2: "m \<notin> set (fst (MurmurService_getTimeline_compiled d u limit offset))"
    unfolding MurmurService_getTimeline_compiled_def Let_def by (rule excl) simp
  have 3: "m \<notin> set (fst (MurmurService_getPublicMurmurs d limit offset))"
    unfolding MurmurService_getPublicMurmurs_def Let_def by (rule excl) simp
  have 4: "m \<notin> set (fst (MurmurService_getUserMurmurs d u limit offset))"
    unfolding MurmurService_getUserMurmurs_def Let_def by (rule excl) simp
  have 5: "m \<notin> set (fst (MurmurService_search d q limit offset))"
    unfolding MurmurService_search_def Let_def by (rule excl) simp
  have 6: "m \<notin> set (fst (MurmurService_getTrending d now limit offset))"
    unfolding MurmurService_getTrending_def Let_def by (rule excl) simp
  have 7: "MurmurService_getTimeline d u limit offset = MurmurService_getTimeline (purgeDeleted d) u limit offset"
    unfolding MurmurService_getTimeline_def Let_def fol by (rule listing_purge [symmetric]) simp
  have 8: "MurmurService_getTimeline_compiled d u limit offset
         = MurmurService_getTimeline_compiled (purgeDeleted d) u limit offset"
    unfolding MurmurService_getTimeline_compiled_def Let_def fol by (rule listing_purge [symmetric]) simp
  have 9: "MurmurService_getPublicMurmurs d limit offset = MurmurService_getPublicMurmurs (purgeDeleted d) limit offset"
    unfolding MurmurService_getPublicMurmurs_def Let_def by (rule listing_purge [symmetric]) simp
  have 10: "MurmurService_getUserMurmurs d u limit offset = MurmurService_getUserMurmurs (purgeDeleted d) u limit offset"
    unfolding MurmurService_getUserMurmurs_def Let_def by (rule listing_purge [symmetric]) simp
  have 11: "MurmurService_search d q limit offset = MurmurService_search (purgeDeleted d) q limit offset"
    unfolding MurmurService_search_def Let_def by (rule listing_purge [symmetric]) simp
  have 12: "MurmurService_getTrending d now limit offset = MurmurService_getTrending (purgeDeleted d) now limit offset"
    unfolding MurmurService_getTrending_def Let_def by (rule listing_purge [symmetric]) simp
  have 13: "distinct (map m_id (murmurs d)) \<longrightarrow> MurmurService_findById d (m_id m) = None"
    using findById_deleted [OF assms] by simp
  have 14: "MurmurService_findById d i \<noteq> Some m"
    using assms(2) by (auto simp: MurmurService_findById_def find_Some_iff)
  from 1 2 3 4 5 6 7 8 9 10 11 12 13 14 show ?thesis by blast
qed

text \<open>The theorem at bob's deleted murmur m4.\<close>

theorem deleted_excluded_witness:
  "exampleMurmur ''m4'' ''bob'' None True 40 \<in> set (murmurs exampleFeedDb)
   \<and> isDeleted (exampleMurmur ''m4'' ''bob'' None True 40)
   \<and> distinct (map m_id (murmurs exampleFeedDb))
   \<and> exampleMurmur ''m4'' ''bob'' None True 40
        \<notin> set (fst (MurmurService_getPublicMurmurs exampleFeedDb 10 0))
   \<and> MurmurService_getUserMurmurs exampleFeedDb ''bob'' 10 0
        = MurmurService_getUserMurmurs (purgeDeleted exampleFeedDb) ''bob'' 10 0
   \<and> snd (MurmurService_getUserMurmurs exampleFeedDb ''bob'' 10 0) = 2
   \<and> MurmurService_findById exampleFeedDb ''m4'' = None"
proof -
  have a: "exampleMurmur ''m4'' ''bob'' None True 40 \<in> set (murmurs exampleFeedDb)"
    by code_simp
  have b: "isDeleted (exampleMurmur ''m4'' ''bob'' None True 40)"
    by code_simp
  have c: "distinct (map m_id (murmurs exampleFeedDb))"
    by code_simp
  have i: "m_id (exampleMurmur ''m4'' ''bob'' None True 40) = ''m4''"
    by code_simp
  have n: "snd (MurmurService_getUserMurmurs exampleFeedDb ''bob'' 10 0) = 2"
    by code_simp
  show ?thesis
    using a b c n deleted_excluded [OF a b, of "''bob''" 10 0 "''hello''" 100 "''m4''"]
    unfolding i by blast
qed

section \<open>Notifications\<close>

lemma find_snoc:
  "find P (xs @ [x]) = (case find P xs of None \<Rightarrow> (if P x then Some x else None) | Some y \<Rightarrow> Some y)"
  by (induction xs) auto

lemma notify_self: "NotificationService_create d cuid now ty r r m = Inr (None, d)"
  by (simp add: NotificationService_create_def)

lemma notify_existing:
  assumes "r \<noteq> a" and "find (notificationMatches ty r a m) (notifications d) = Some n"
  shows "NotificationService_create d cuid now ty r a m = Inr (Some n, d)"
  using assms by (simp add: NotificationService_create_def)

lemma notify_fresh:
  assumes "r \<noteq> a" and "find (notificationMatches ty r a m) (notifications d) = None"
    and "userExists d r" and "userExists d a"
    and "\<forall>x. m = Some x \<longrightarrow> x \<noteq> [] \<and> murmurExists d x"
    and "\<not> list_ex (\<lambda>n. n_id n = cuid) (notifications d)"
  shows "NotificationService_create d cuid now ty r a m =
     Inr (Some \<lparr>n_id = cuid, n_type = ty, n_userId = r, n_actorId = a,
                 n_murmurId = m, isRead = False, n_createdAt = now\<rparr>,
          d\<lparr>notifications := notifications d @
             [\<lparr>n_id = cuid, n_type = ty, n_userId = r, n_actorId = a,
               n_murmurId = m, isRead = False, n_createdAt = now\<rparr>]\<rparr>)"
proof -
  have st: "(if truthy m then m else None) = m"
    using assms(5) by (cases m) (auto simp: truthy_def)
  have fk: "\<not> (case m of None \<Rightarrow> False | Some x \<Rightarrow> \<not> murmurExists d x)"
    using assms(5) by (cases m) auto
  show ?thesis
    using assms(1,2,3,4,6) fk
    by (simp add: NotificationService_create_def prisma_notification_create_def st Let_def)
qed

lemma matches_key:
  assumes "\<forall>x. m = Some x \<longrightarrow> x \<noteq> [] \<and> murmurExists d x"
    and "m = None \<longrightarrow> \<not> list_ex (\<lambda>n. n_type n = ty \<and> n_userId n = r \<and> n_actorId n = a
                                        \<and> n_murmurId n \<noteq> None) (notifications d)"
    and "n \<in> set (notifications d)"
  shows "notificationMatches ty r a m n \<longleftrightarrow>
     n_type n = ty \<and> n_userId n = r \<and> n_actorId n = a \<and> n_murmurId n = m"
proof (cases m)
  case None
  with assms(2) have "\<not> list_ex (\<lambda>n. n_type n = ty \<and> n_userId n = r \<and> n_actorId n = a
                                        \<and> n_murmurId n \<noteq> None) (notifications d)"
    by simp
  with assms(3) have "\<not> (n_type n = ty \<and> n_userId n = r \<and> n_actorId n = a \<and> n_murmurId n \<noteq> None)"
    unfolding list_ex_iff by blast
  with None show ?thesis
    by (auto simp: notificationMatches_def truthy_def)
next
  case (Some x)
  with assms(1) have "x \<noteq> []" by simp
  with Some show ?thesis
    by (simp add: notificationMatches_def truthy_def)
qed

lemma notify_twice:
  assumes ra: "r \<noteq> a" and ur: "userExists d r" and ua: "userExists d a"
    and mu: "\<forall>x. m = Some x \<longrightarrow> x \<noteq> [] \<and> murmurExists d x"
    and pk: "\<not> list_ex (\<lambda>n. n_id n = cuid) (notifications d)"
    and le: "notificationCount d ty r a m \<le> 1"
    and nm: "m = None \<longrightarrow> \<not> list_ex (\<lambda>n. n_type n = ty \<and> n_userId n = r \<and> n_actorId n = a
                                        \<and> n_murmurId n \<noteq> None) (notifications d)"
  shows "\<exists>row d1. NotificationService_create d cuid now ty r a m = Inr (Some row, d1)
             \<and> NotificationService_create d1 cuid' now' ty r a m = Inr (Some row, d1)
             \<and> notificationCount d1 ty r a m = 1
             \<and> row \<in> set (notifications d1)
             \<and> n_type row = ty \<and> n_userId row = r \<and> n_actorId row = a \<and> n_murmurId row = m"
proof (cases "find (notificationMatches ty r a m) (notifications d)")
  case (Some n)
  let ?key = "\<lambda>n. n_type n = ty \<and> n_userId n = r \<and> n_actorId n = a \<and> n_murmurId n = m"
  from Some have mem: "n \<in> set (notifications d)" and mt: "notificationMatches ty r a m n"
    by (auto simp: find_Some_iff)
  from mt have key: "?key n"
    using matches_key [OF mu nm mem] by simp
  have "n \<in> set (filter ?key (notifications d))"
    using mem key by simp
  then have "0 < length (filter ?key (notifications d))"
    by (rule length_pos_if_in_set)
  with le have cnt: "notificationCount d ty r a m = 1"
    unfolding notificationCount_def by linarith
  have c1: "NotificationService_create d cuid now ty r a m = Inr (Some n, d)"
    by (rule notify_existing [OF ra Some])
  have c2: "NotificationService_create d cuid' now' ty r a m = Inr (Some n, d)"
    by (rule notify_existing [OF ra Some])
  show ?thesis
    by (intro exI [of _ n] exI [of _ d] conjI c1 c2 cnt mem) (simp_all add: key)
next
  case None
  let ?key = "\<lambda>n. n_type n = ty \<and> n_userId n = r \<and> n_actorId n = a \<and> n_murmurId n = m"
  define row where "row = \<lparr>n_id = cuid, n_type = ty, n_userId = r, n_actorId = a,
                 n_murmurId = m, isRead = False, n_createdAt = now\<rparr>"
  define d1 where "d1 = d\<lparr>notifications := notifications d @ [row]\<rparr>"
  have krow: "?key row"
    by (simp add: row_def)
  then have mrow: "notificationMatches ty r a m row"
    by (simp add: notificationMatches_def)
  have c1: "NotificationService_create d cuid now ty r a m = Inr (Some row, d1)"
    unfolding row_def d1_def by (rule notify_fresh [OF ra None ur ua mu pk])
  have nd1: "notifications d1 = notifications d @ [row]"
    by (simp add: d1_def)
  have "find (notificationMatches ty r a m) (notifications d1) = Some row"
    using None mrow by (simp add: nd1 find_snoc)
  then have c2: "NotificationService_create d1 cuid' now' ty r a m = Inr (Some row, d1)"
    by (rule notify_existing [OF ra])
  have "\<not> ?key n" if "n \<in> set (notifications d)" for n
    using None that matches_key [OF mu nm that] by (simp add: find_None_iff)
  then have "filter ?key (notifications d) = []"
    by (simp add: filter_empty_conv)
  then have cnt: "notificationCount d1 ty r a m = 1"
    using krow by (simp add: notificationCount_def nd1)
  have mem: "row \<in> set (notifications d1)"
    by (simp add: nd1)
  show ?thesis
    by (intro exI [of _ row] exI [of _ d1] conjI c1 c2 cnt mem) (simp_all add: krow)
qed

text \<open>
  Claim C7. \<^verbatim>\<open>NotificationService.create\<close> with recipient and actor equal answers
  null and stores nothing. With recipient R and actor A different (both users of
  the store, the murmur M absent or a murmur of the store, the generated id
  unused, at most one row of the tuple stored before, and, for an absent M, no
  row of type, R and A that carries a murmur), two calls in succession answer
  the same row, the second call changes nothing, and the store holds exactly one
  row of the tuple (type, R, A, M).
\<close>

theorem notify_dedup:
  "NotificationService_create d cuid now ty r r m = Inr (None, d)
   \<and> (r \<noteq> a \<and> userExists d r \<and> userExists d a
        \<and> (\<forall>x. m = Some x \<longrightarrow> x \<noteq> [] \<and> murmurExists d x)
        \<and> \<not> list_ex (\<lambda>n. n_id n = cuid) (notifications d)
        \<and> notificationCount d ty r a m \<le> 1
        \<and> (m = None \<longrightarrow> \<not> list_ex (\<lambda>n. n_type n = ty \<and> n_userId n = r \<and> n_actorId n = a
                                        \<and> n_murmurId n \<noteq> None) (notifications d))
      \<longrightarrow> (\<exists>row d1. NotificationService_create d cuid now ty r a m = Inr (Some row, d1)
             \<and> NotificationService_create d1 cuid' now' ty r a m = Inr (Some row, d1)
             \<and> notificationCount d1 ty r a m = 1
             \<and> row \<in> set (notifications d1)
             \<and> n_type row = ty \<and> n_userId row = r \<and> n_actorId row = a \<and> n_murmurId row = m))"
proof (intro conjI impI)
  show "NotificationService_create d cuid now ty r r m = Inr (None, d)"
    by (rule notify_self)
next
  assume H: "r \<noteq> a \<and> userExists d r \<and> userExists d a
        \<and> (\<forall>x. m = Some x \<longrightarrow> x \<noteq> [] \<and> murmurExists d x)
        \<and> \<not> list_ex (\<lambda>n. n_id n = cuid) (notifications d)
        \<and> notificationCount d ty r a m \<le> 1
        \<and> (m = None \<longrightarrow> \<not> list_ex (\<lambda>n. n_type n = ty \<and> n_userId n = r \<and> n_actorId n = a
                                        \<and> n_murmurId n \<noteq> None) (notifications d))"
  then have h: "r \<noteq> a" "userExists d r" "userExists d a"
      "\<forall>x. m = Some x \<longrightarrow> x \<noteq> [] \<and> murmurExists d x"
      "\<not> list_ex (\<lambda>n. n_id n = cuid) (notifications d)"
      "notificationCount d ty r a m \<le> 1"
      "m = None \<longrightarrow> \<not> list_ex (\<lambda>n. n_type n = ty \<and> n_userId n = r \<and> n_actorId n = a
                                        \<and> n_murmurId n \<noteq> None) (notifications d)"
    by blast+
  show "\<exists>row d1. NotificationService_create d cuid now ty r a m = Inr (Some row, d1)
             \<and> NotificationService_create d1 cuid' now' ty r a m = Inr (Some row, d1)
             \<and> notificationCount d1 ty r a m = 1
             \<and> row \<in> set (notifications d1)
             \<and> n_type row = ty \<and> n_userId row = r \<and> n_actorId row = a \<and> n_murmurId row = m"
    by (rule notify_twice [OF h])
qed

lemma notify_example_like:
  "''bob'' \<noteq> ''alice'' \<and> userExists exampleFeedDb ''bob'' \<and> userExists exampleFeedDb ''alice''
   \<and> ''m1'' \<noteq> [] \<and> murmurExists exampleFeedDb ''m1''
   \<and> \<not> list_ex (\<lambda>n. n_id n = ''n1'') (notifications exampleFeedDb)
   \<and> notificationCount exampleFeedDb NLike ''bob'' ''alice'' (Some ''m1'') \<le> 1"
  by code_simp

lemma notify_example_follow:
  "''bob'' \<noteq> ''alice'' \<and> userExists exampleFeedDb ''bob'' \<and> userExists exampleFeedDb ''alice''
   \<and> \<not> list_ex (\<lambda>n. n_id n = ''n1'') (notifications exampleFeedDb)
   \<and> notificationCount exampleFeedDb NFollow ''bob'' ''alice'' None \<le> 1
   \<and> \<not> list_ex (\<lambda>n. n_type n = NFollow \<and> n_userId n = ''bob'' \<and> n_actorId n = ''alice''
                      \<and> n_murmurId n \<noteq> None) (notifications exampleFeedDb)"
  by code_simp

text \<open>
  The theorem in the example store: bob is not notified of his own like, and is
  notified once of alice's like of m1 and once of alice's follow.
\<close>

theorem notify_dedup_witness:
  "NotificationService_create exampleFeedDb ''n1'' 60 NLike ''bob'' ''bob'' (Some ''m1'')
     = Inr (None, exampleFeedDb)
   \<and> (\<exists>row d1. NotificationService_create exampleFeedDb ''n1'' 60 NLike ''bob'' ''alice'' (Some ''m1'')
                   = Inr (Some row, d1)
         \<and> NotificationService_create d1 ''n2'' 61 NLike ''bob'' ''alice'' (Some ''m1'') = Inr (Some row, d1)
         \<and> notificationCount d1 NLike ''bob'' ''alice'' (Some ''m1'') = 1
         \<and> n_murmurId row = Some ''m1'')
   \<and> (\<exists>row d1. NotificationService_create exampleFeedDb ''n1'' 60 NFollow ''bob'' ''alice'' None
                   = Inr (Some row, d1)
         \<and> NotificationService_create d1 ''n2'' 61 NFollow ''bob'' ''alice'' None = Inr (Some row, d1)
         \<and> notificationCount d1 NFollow ''bob'' ''alice'' None = 1
         \<and> n_murmurId row = None)"
proof -
  note like = notify_dedup [where d = exampleFeedDb and cuid = "''n1''" and now = 60 and ty = NLike
      and r = "''bob''" and a = "''alice''" and m = "Some ''m1''" and cuid' = "''n2''" and now' = 61]
  note follow = notify_dedup [where d = exampleFeedDb and cuid = "''n1''" and now = 60 and ty = NFollow
      and r = "''bob''" and a = "''alice''" and m = None and cuid' = "''n2''" and now' = 61]
  have 1: "NotificationService_create exampleFeedDb ''n1'' 60 NLike ''bob'' ''bob'' (Some ''m1'')
     = Inr (None, exampleFeedDb)"
    using like by (rule conjunct1)
  have 2: "\<exists>row d1. NotificationService_create exampleFeedDb ''n1'' 60 NLike ''bob'' ''alice'' (Some ''m1'')
                   = Inr (Some row, d1)
         \<and> NotificationService_create d1 ''n2'' 61 NLike ''bob'' ''alice'' (Some ''m1'') = Inr (Some row, d1)
         \<and> notificationCount d1 NLike ''bob'' ''alice'' (Some ''m1'') = 1
         \<and> n_murmurId row = Some ''m1''"
    using like notify_example_like by auto
  have 3: "\<exists>row d1. NotificationService_create exampleFeedDb ''n1'' 60 NFollow ''bob'' ''alice'' None
                   = Inr (Some row, d1)
         \<and> NotificationService_create d1 ''n2'' 61 NFollow ''bob'' ''alice'' None = Inr (Some row, d1)
         \<and> notificationCount d1 NFollow ''bob'' ''alice'' None = 1
         \<and> n_murmurId row = None"
    using follow notify_example_follow by auto
  from 1 2 3 show ?thesis
    by (intro conjI)
qed

section \<open>User objects\<close>

lemma withoutPassword_password: "withoutPassword obj ''password'' = None"
  by (simp add: withoutPassword_def)

lemma searchSelect_password: "selectFields searchSelect obj ''password'' = None"
  by (simp add: selectFields_def searchSelect_def)

text \<open>
  Claim C10. The user objects answered by \<^verbatim>\<open>create\<close>, \<^verbatim>\<open>findById\<close>,
  \<^verbatim>\<open>findByEmail\<close>, \<^verbatim>\<open>findByUsername\<close>, \<^verbatim>\<open>update\<close> and \<^verbatim>\<open>search\<close> have
  no \<^verbatim>\<open>password\<close> property, whatever the stored row holds.
\<close>

theorem user_objects_without_password:
  "(\<forall>obj d'. UserService_create hash d cuid now userData = Inr (obj, d') \<longrightarrow> obj ''password'' = None)
   \<and> (\<forall>obj. UserService_findById d i = Some obj \<longrightarrow> obj ''password'' = None)
   \<and> (\<forall>obj. UserService_findByEmail d e = Some obj \<longrightarrow> obj ''password'' = None)
   \<and> (\<forall>obj. UserService_findByUsername d n = Some obj \<longrightarrow> obj ''password'' = None)
   \<and> (\<forall>obj d'. UserService_update d now i upd = Inr (Some obj, d') \<longrightarrow> obj ''password'' = None)
   \<and> (\<forall>obj \<in> set (UserService_search d q limit offset). obj ''password'' = None)"
proof (intro conjI allI impI ballI)
  fix obj d'
  assume "UserService_create hash d cuid now userData = Inr (obj, d')"
  then show "obj ''password'' = None"
    by (auto simp: UserService_create_def Let_def withoutPassword_password split: sum.splits)
next
  fix obj
  assume "UserService_findById d i = Some obj"
  then show "obj ''password'' = None"
    by (auto simp: UserService_findById_def withoutPassword_password split: option.splits)
next
  fix obj
  assume "UserService_findByEmail d e = Some obj"
  then show "obj ''password'' = None"
    by (auto simp: UserService_findByEmail_def withoutPassword_password split: option.splits)
next
  fix obj
  assume "UserService_findByUsername d n = Some obj"
  then show "obj ''password'' = None"
    by (auto simp: UserService_findByUsername_def withoutPassword_password split: option.splits)
next
  fix obj d'
  assume "UserService_update d now i upd = Inr (Some obj, d')"
  then show "obj ''password'' = None"
    by (auto simp: UserService_update_def withoutPassword_password split: sum.splits)
next
  fix obj
  assume "obj \<in> set (UserService_search d q limit offset)"
  then show "obj ''password'' = None"
    by (auto simp: UserService_search_def searchSelect_password)
qed

lemma example_create: "(case UserService_create exampleHash exampleDb ''u4'' 7 exampleSignup of
        Inl e \<Rightarrow> False
      | Inr (obj, d') \<Rightarrow>
          map password (users d') = [''$2a$12$hash'', ''$2a$12$hash'', ''$2a$12$hash'', ''$2a$12$terces'']
          \<and> obj ''username'' = Some (JString ''dave''))"
    by code_simp

lemma example_findById: "(case UserService_findById exampleDb ''alice'' of
        None \<Rightarrow> False
      | Some obj \<Rightarrow> obj ''email'' = Some (JString ''alice@example.org''))"
    by code_simp

lemma example_findByEmail: "(case UserService_findByEmail exampleDb ''bob@example.org'' of
        None \<Rightarrow> False
      | Some obj \<Rightarrow> obj ''id'' = Some (JString ''bob''))"
    by code_simp

lemma example_findByUsername: "(case UserService_findByUsername exampleDb ''carol'' of
        None \<Rightarrow> False
      | Some obj \<Rightarrow> obj ''id'' = Some (JString ''carol''))"
    by code_simp

lemma example_update: "(case UserService_update exampleDb 7 ''alice'' exampleUpdate of
        Inr (Some obj, d') \<Rightarrow> obj ''displayName'' = Some (JString ''Alice'')
      | _ \<Rightarrow> False)"
    by code_simp

lemma example_search: "length (UserService_search exampleDb ''A'' 20 0) = 2"
    by code_simp

text \<open>
  The theorem in the example store, where every row has a password and each of
  the six operations answers an object.
\<close>

theorem user_objects_without_password_witness:
  "(case UserService_create exampleHash exampleDb ''u4'' 7 exampleSignup of
        Inl e \<Rightarrow> False
      | Inr (obj, d') \<Rightarrow>
          map password (users d') = [''$2a$12$hash'', ''$2a$12$hash'', ''$2a$12$hash'', ''$2a$12$terces'']
          \<and> obj ''username'' = Some (JString ''dave'') \<and> obj ''password'' = None)
   \<and> (case UserService_findById exampleDb ''alice'' of
        None \<Rightarrow> False
      | Some obj \<Rightarrow> obj ''email'' = Some (JString ''alice@example.org'') \<and> obj ''password'' = None)
   \<and> (case UserService_findByEmail exampleDb ''bob@example.org'' of
        None \<Rightarrow> False
      | Some obj \<Rightarrow> obj ''id'' = Some (JString ''bob'') \<and> obj ''password'' = None)
   \<and> (case UserService_findByUsername exampleDb ''carol'' of
        None \<Rightarrow> False
      | Some obj \<Rightarrow> obj ''id'' = Some (JString ''carol'') \<and> obj ''password'' = None)
   \<and> (case UserService_update exampleDb 7 ''alice'' exampleUpdate of
        Inr (Some obj, d') \<Rightarrow> obj ''displayName'' = Some (JString ''Alice'') \<and> obj ''password'' = None
      | _ \<Rightarrow> False)
   \<and> map (\<lambda>obj. obj ''password'') (UserService_search exampleDb ''A'' 20 0) = [None, None]"
proof -
  note t = user_objects_without_password [of exampleHash exampleDb "''u4''" 7 exampleSignup
      "''alice''" "''bob@example.org''" "''carol''" exampleUpdate "''A''" 20 0]
  have 1: "(case UserService_create exampleHash exampleDb ''u4'' 7 exampleSignup of
        Inl e \<Rightarrow> False
      | Inr (obj, d') \<Rightarrow>
          map password (users d') = [''$2a$12$hash'', ''$2a$12$hash'', ''$2a$12$hash'', ''$2a$12$terces'']
          \<and> obj ''username'' = Some (JString ''dave'') \<and> obj ''password'' = None)"
    using example_create t by (auto split: sum.splits)
  have 2: "(case UserService_findById exampleDb ''alice'' of
        None \<Rightarrow> False
      | Some obj \<Rightarrow> obj ''email'' = Some (JString ''alice@example.org'') \<and> obj ''password'' = None)"
    using example_findById t by (auto split: option.splits)
  have 3: "(case UserService_findByEmail exampleDb ''bob@example.org'' of
        None \<Rightarrow> False
      | Some obj \<Rightarrow> obj ''id'' = Some (JString ''bob'') \<and> obj ''password'' = None)"
    using example_findByEmail t by (auto split: option.splits)
  have 4: "(case UserService_findByUsername exampleDb ''carol'' of
        None \<Rightarrow> False
      | Some obj \<Rightarrow> obj ''id'' = Some (JString ''carol'') \<and> obj ''password'' = None)"
    using example_findByUsername t by (auto split: option.splits)
  have 5: "(case UserService_update exampleDb 7 ''alice'' exampleUpdate of
        Inr (Some obj, d') \<Rightarrow> obj ''displayName'' = Some (JString ''Alice'') \<and> obj ''password'' = None
      | _ \<Rightarrow> False)"
    using example_update t by (auto split: sum.splits option.splits)
  have "\<forall>p \<in> set (map (\<lambda>obj. obj ''password'') (UserService_search exampleDb ''A'' 20 0)). p = None"
    using t by simp
  then have "replicate (length (map (\<lambda>obj. obj ''password'') (UserService_search exampleDb ''A'' 20 0))) None
      = map (\<lambda>obj. obj ''password'') (UserService_search exampleDb ''A'' 20 0)"
    by (rule replicate_length_same)
  then have 6: "map (\<lambda>obj. obj ''password'') (UserService_search exampleDb ''A'' 20 0) = [None, None]"
    by (simp add: example_search numeral_2_eq_2)
  from 1 2 3 4 5 6 show ?thesis
    by (intro conjI)
qed

end
